theory Spec2Isabelle
  imports Main
begin

section \<open>The request wrapper of \<open>dataset/request/request.py\<close>\<close>

text \<open>
  The module wraps the host framework's \<open>HttpRequest\<close> in a \<open>Request\<close> object that
  parses the body lazily, caches the result, and runs the configured authenticators on
  first access to \<open>user\<close>, \<open>auth\<close> or \<open>successful_authenticator\<close>.

  The embedding is by explicit state passing. A method of \<open>Request\<close> becomes a function
  from the object's state to a pair of an outcome (\<open>Inl\<close> a raised exception, \<open>Inr\<close> the
  returned value) and the state the call leaves behind; the wrapped \<open>HttpRequest\<close> is a
  field of that state, so writes to it are visible in the result.

  Python attributes with a leading underscore cannot keep their name: the attribute
  \<open>_data\<close> of \<open>Request\<close> is the field \<open>p_data\<close>, and the attribute \<open>_post\<close> of the wrapped
  request is the field \<open>r_post\<close>. The methods \<open>_parse\<close>, \<open>_authenticate\<close>, ... are the
  functions \<open>parse\<close>, \<open>authenticate_request\<close>, ...

  The class carries \<open>icontract\<close> invariants. Around a call of a public member the
  decorator checks them before the call and, when the call returns, after it, and raises
  \<open>ViolationError\<close> when one fails; calls made while such a call is running on the same
  object are not checked again. The check is \<open>with_invariants\<close> below. It is part of the definitions \<open>user\<close>,
  \<open>auth\<close> and \<open>successful_authenticator\<close>, where a return can break an invariant. The
  definitions \<open>stream\<close>, \<open>data\<close>, \<open>POST\<close> and \<open>FILES\<close> are the property functions as written:
  \<open>_parse\<close> and \<open>_load_data_and_files\<close> call three of them from inside the class, and
  around all four the check changes nothing when the invariants hold on entry (lemmas
  \<open>stream_with_invariants\<close>, \<open>data_with_invariants\<close>, \<open>POST_with_invariants\<close> and
  \<open>FILES_with_invariants\<close>).
\<close>

subsection \<open>Values\<close>

text \<open>Users, tokens and the members of containers: \<open>None\<close>, strings, ints, and opaque objects.\<close>

datatype pyval = PyNone | PyStr string | PyInt int | PyObj string

fun py_truthy :: "pyval \<Rightarrow> bool" where
  "py_truthy PyNone = False"
| "py_truthy (PyStr s) = (s \<noteq> [])"
| "py_truthy (PyInt n) = (n \<noteq> 0)"
| "py_truthy (PyObj n) = True"

text \<open>
  What \<open>_data\<close>, \<open>_files\<close>, \<open>_full_data\<close> and \<open>_content_type\<close> can hold: the placeholder class
  \<open>Empty\<close> ("Cannot use None, as that may be a valid value"), a plain \<open>dict\<close>, a
  \<open>QueryDict\<close> with its encoding, a \<open>MultiValueDict\<close>, or any other parsed value.
\<close>

datatype pydata =
    Empty
  | Dict "(string \<times> pyval) list"
  | QueryDict "(string \<times> pyval list) list" "string option"
  | MultiValueDict "(string \<times> pyval list) list"
  | Plain pyval

text \<open>Truth value of a container, as \<open>if self._files:\<close> reads it; a class object is true.\<close>

fun data_truthy :: "pydata \<Rightarrow> bool" where
  "data_truthy Empty = True"
| "data_truthy (Dict kvs) = (kvs \<noteq> [])"
| "data_truthy (QueryDict kvs enc) = (kvs \<noteq> [])"
| "data_truthy (MultiValueDict kvs) = (kvs \<noteq> [])"
| "data_truthy (Plain v) = py_truthy v"


text \<open>The values of the \<open>META\<close> dictionary that the module reads.\<close>

datatype meta_value = MNone | MInt int | MStr string

fun meta_truthy :: "meta_value \<Rightarrow> bool" where
  "meta_truthy MNone = False"
| "meta_truthy (MInt n) = (n \<noteq> 0)"
| "meta_truthy (MStr s) = (s \<noteq> [])"

text \<open>What \<open>_stream\<close> can hold: \<open>Empty\<close>, \<open>None\<close>, the wrapped request itself, or a \<open>BytesIO\<close>.\<close>

datatype stream = Empty_stream | None_stream | Request_stream | BytesIO string

text \<open>An attribute that \<open>hasattr\<close> tests: absent, or present with a value.\<close>

datatype 'a attribute = Unset | Attr 'a

datatype exn =
    TypeError string
  | AttributeError string
  | WrappedAttributeError string
  | RawPostDataException
  | UnsupportedMediaType meta_value
  | APIException string
  | ViolationError string
  | Exception string

text \<open>
  Modelled from the spec: the exception classes are declared in
  \<open>dataset.request.utils.exceptions\<close>, which is not among the sources. The spec speaks of a
  "framework-defined API exception" and of \<open>UnsupportedMediaType\<close>. \<open>APIException d\<close> stands
  for an instance of \<open>APIException\<close> or of any subclass but \<open>UnsupportedMediaType\<close>, which is
  taken to be a subclass too, as in the framework the module was adapted from.
\<close>

fun is_APIException :: "exn \<Rightarrow> bool" where
  "is_APIException (APIException d) = True"
| "is_APIException (UnsupportedMediaType m) = True"
| "is_APIException e = False"

subsection \<open>Library functions the module calls\<close>

text \<open>
  A string is a sequence of code points below 256, which is what a WSGI server delivers
  as a header value. Two sets of blanks matter. \<open>str.isspace\<close>, which \<open>str.strip\<close> uses,
  holds of the code points 0x09 to 0x0D, 0x1C to 0x1F, 0x20, 0x85 and 0xA0. \<open>int\<close> skips
  fewer: 0x09 to 0x0D and 0x20, the blanks of the C locale, and 0x85 and 0xA0, which it
  first replaces by a space; it rejects 0x1C to 0x1F.
\<close>

definition py_isspace :: "char \<Rightarrow> bool" where
  "py_isspace c = (c \<in> set [CHR 0x09, CHR 0x0A, CHR 0x0B, CHR 0x0C, CHR 0x0D,
                            CHR 0x1C, CHR 0x1D, CHR 0x1E, CHR 0x1F, CHR 0x20,
                            CHR 0x85, CHR 0xA0])"

definition int_isspace :: "char \<Rightarrow> bool" where
  "int_isspace c = (c \<in> set [CHR 0x09, CHR 0x0A, CHR 0x0B, CHR 0x0C, CHR 0x0D, CHR 0x20,
                             CHR 0x85, CHR 0xA0])"

definition strip_with :: "(char \<Rightarrow> bool) \<Rightarrow> string \<Rightarrow> string" where
  "strip_with blank s = rev (dropWhile blank (rev (dropWhile blank s)))"

text \<open>\<open>s.strip()\<close>.\<close>

definition py_strip :: "string \<Rightarrow> string" where
  "py_strip s = strip_with py_isspace s"

text \<open>
  \<open>int(x)\<close> on a \<open>META\<close> value: an int is itself, \<open>None\<close> raises \<open>TypeError\<close>, a string is
  stripped of the blanks that \<open>int\<close> skips and read as an optional sign followed by
  decimal digits, single underscores allowed between digits; anything else raises
  \<open>ValueError\<close>, and so does a string of more than 4300 digits, the interpreter's default
  limit. Below code point 256 the decimal digits are 0 to 9 only. The only caller catches
  both exceptions, so a raise is \<open>None\<close> here.
\<close>

definition is_digit :: "char \<Rightarrow> bool" where
  "is_digit c = (48 \<le> (of_char c :: nat) \<and> (of_char c :: nat) \<le> 57)"

definition digit_val :: "char \<Rightarrow> int" where
  "digit_val c = int (of_char c) - 48"

fun digits_ok :: "string \<Rightarrow> bool" where
  "digits_ok [] = False"
| "digits_ok [c] = is_digit c"
| "digits_ok (c # d # cs) =
     (is_digit c \<and> (if d = CHR ''_'' then digits_ok cs else digits_ok (d # cs)))"

definition digits_value :: "string \<Rightarrow> int" where
  "digits_value s = foldl (\<lambda>acc c. if c = CHR ''_'' then acc else 10 * acc + digit_val c) 0 s"

definition py_int_str :: "string \<Rightarrow> int option" where
  "py_int_str s =
     (let t = strip_with int_isspace s;
          neg = (case t of [] \<Rightarrow> False | c # r \<Rightarrow> c = CHR ''-'');
          body = (case t of [] \<Rightarrow> [] | c # r \<Rightarrow> if c = CHR ''-'' \<or> c = CHR ''+'' then r else t)
      in if digits_ok body \<and> length (filter is_digit body) \<le> 4300
         then Some (if neg then - digits_value body else digits_value body)
         else None)"

fun py_int :: "meta_value \<Rightarrow> int option" where
  "py_int (MInt n) = Some n"
| "py_int (MStr s) = py_int_str s"
| "py_int MNone = None"

text \<open>
  \<open>parse_header_parameters(line)\<close> of the host framework returns the text before the
  first parameter separator, stripped and lower-cased, and the parameters. Only the first
  component is used by the module. A separator inside a quoted string does not end
  the first component in the library; such a component contains a quote character and
  equals neither form media type, with or without that rule, so the rule is left out.
  A value that is not a string makes the library raise \<open>TypeError\<close>. \<open>str.lower\<close> moves
  the capital letters, 0x41 to 0x5A and 0xC0 to 0xDE without 0xD7, up by 32.
\<close>

definition py_lower_char :: "char \<Rightarrow> char" where
  "py_lower_char c =
     (if (65 \<le> (of_char c :: nat) \<and> (of_char c :: nat) \<le> 90) \<or>
         (192 \<le> (of_char c :: nat) \<and> (of_char c :: nat) \<le> 222 \<and> (of_char c :: nat) \<noteq> 215)
      then char_of ((of_char c :: nat) + 32) else c)"

definition base_media_type :: "string \<Rightarrow> string" where
  "base_media_type line = map py_lower_char (py_strip (takeWhile (\<lambda>c. c \<noteq> CHR '';'') line))"

fun is_form_media_type :: "meta_value \<Rightarrow> exn + bool" where
  "is_form_media_type (MStr media_type) =
     Inr (base_media_type media_type = ''application/x-www-form-urlencoded'' \<or>
          base_media_type media_type = ''multipart/form-data'')"
| "is_form_media_type v = Inl (TypeError ''parse_header_parameters'')"

subsection \<open>The wrapped request\<close>

text \<open>
  The host framework's request, as far as the module reads or writes it. \<open>r_body\<close> is the
  cached body (\<open>_body\<close>): the host's \<open>body\<close> property returns it, and raises
  \<open>RawPostDataException\<close> when the stream has been read from and nothing is cached; the
  module reads \<open>body\<close> only after \<open>_read_started\<close>. \<open>r_encoding\<close> is \<open>_encoding\<close>, which the
  host's \<open>encoding\<close> property returns. \<open>r_force_auth_user\<close> and \<open>r_force_auth_token\<close> are read
  with \<open>getattr(request, ..., None)\<close>, so an absent attribute is \<open>PyNone\<close>.
\<close>

record HttpRequest =
  META :: "(string \<times> meta_value) list"
  r_read_started :: bool
  r_body :: "string option"
  r_encoding :: "string option"
  r_method :: string
  r_post :: "pydata attribute"
  r_files :: "pydata attribute"
  r_user :: "pyval attribute"
  r_auth :: "pyval attribute"
  r_force_auth_user :: pyval
  r_force_auth_token :: pyval

text \<open>
  The host's \<open>POST\<close> and \<open>FILES\<close> properties return the caches \<open>_post\<close> and \<open>_files\<close>, which
  the host fills together. The module reads them only where \<open>_post\<close> is present and the
  stream has been read without a cached body. Should \<open>_files\<close> be absent there, the
  host's loader runs: it finds the stream already read and resets both caches to empty
  containers.
\<close>

definition host_load_post_and_files :: "HttpRequest \<Rightarrow> HttpRequest" where
  "host_load_post_and_files r =
     r\<lparr>r_post := Attr (QueryDict [] (if r_method r = ''POST'' then None else r_encoding r)),
       r_files := Attr (MultiValueDict [])\<rparr>"

definition host_FILES :: "HttpRequest \<Rightarrow> pydata \<times> HttpRequest" where
  "host_FILES r =
     (case r_files r of
        Attr f \<Rightarrow> (f, r)
      | Unset \<Rightarrow> (MultiValueDict [], host_load_post_and_files r))"

subsection \<open>Parsers, negotiator, authenticators, settings\<close>

text \<open>
  A parser's \<open>parse(stream, media_type, parser_context)\<close> either raises or returns a
  \<open>DataAndFiles\<close> object or the bare data. It is a function of its arguments and of the
  wrapped request, from which a \<open>Request_stream\<close> reads.
\<close>

datatype parsed = DataAndFiles pydata pydata | RawData pydata

record parser =
  media_type :: string
  parser_parse :: "stream \<Rightarrow> HttpRequest \<Rightarrow> meta_value \<Rightarrow> (string \<times> pyval) list \<Rightarrow> exn + parsed"

text \<open>
  \<open>negotiator.select_parser(request, parsers)\<close>: the negotiator class comes from the
  settings and is a parameter here, a function of the request's content type and the
  parser list that returns a parser or \<open>None\<close>.
\<close>

type_synonym negotiator = "meta_value \<Rightarrow> parser list \<Rightarrow> parser option"

text \<open>
  An authenticator is the module's own \<open>ForcedAuthentication\<close> or a configured one, named,
  whose \<open>authenticate\<close> returns \<open>None\<close> or a pair, or raises; it is a function of the
  wrapped request, to which the wrapper forwards attribute reads.
\<close>

datatype authenticator =
    ForcedAuthentication pyval pyval
  | Authenticator string "HttpRequest \<Rightarrow> exn + (pyval \<times> pyval) option"

fun authenticate :: "authenticator \<Rightarrow> HttpRequest \<Rightarrow> exn + (pyval \<times> pyval) option" where
  "authenticate (ForcedAuthentication force_user force_token) request =
     Inr (Some (force_user, force_token))"
| "authenticate (Authenticator name f) request = f request"

text \<open>
  What the module takes from \<open>settings\<close> and \<open>api_settings\<close>, and the two container
  methods \<open>copy\<close> and \<open>update\<close> that \<open>_load_data_and_files\<close> calls on parsed data.
\<close>

record environment =
  DEFAULT_CHARSET :: string
  DEFAULT_CONTENT_NEGOTIATION_CLASS :: negotiator
  UNAUTHENTICATED_USER :: "(unit \<Rightarrow> pyval) option"
  UNAUTHENTICATED_TOKEN :: "(unit \<Rightarrow> pyval) option"
  data_copy :: "pydata \<Rightarrow> exn + pydata"
  data_update :: "pydata \<Rightarrow> pydata \<Rightarrow> exn + pydata"

subsection \<open>The class \<open>Request\<close>\<close>

text \<open>
  \<open>parser_context\<close> holds the entries \<open>request\<close> (the object itself, written
  \<open>PyObj ''self''\<close>) and \<open>encoding\<close>. The field \<open>http_method\<close> is the attribute that
  \<open>clone_request\<close> assigns with \<open>ret.method = ...\<close>; while it is absent, reads are
  forwarded to the wrapped request.
\<close>

record Request =
  p_request :: HttpRequest
  parsers :: "parser list"
  authenticators :: "authenticator list"
  negotiator :: negotiator
  parser_context :: "(string \<times> pyval) list"
  p_data :: pydata
  p_files :: pydata
  p_full_data :: pydata
  p_content_type :: pydata
  p_stream :: stream
  http_method :: "string attribute"
  p_user :: "pyval attribute"
  p_auth :: "pyval attribute"
  p_authenticator :: "authenticator option attribute"
  accepted_renderer :: "pyval attribute"
  accepted_media_type :: "pyval attribute"
  version :: "pyval attribute"
  versioning_scheme :: "pyval attribute"

text \<open>\<open>Request.__init__(self, request, parsers=None, authenticators=None)\<close>.\<close>

definition Request_init ::
  "environment \<Rightarrow> HttpRequest \<Rightarrow> parser list option \<Rightarrow> authenticator list option \<Rightarrow> Request" where
  "Request_init env request parsers_arg authenticators_arg =
     (let self = \<lparr>
            p_request = request,
            parsers = (case parsers_arg of None \<Rightarrow> [] | Some ps \<Rightarrow> ps),
            authenticators = (case authenticators_arg of None \<Rightarrow> [] | Some al \<Rightarrow> al),
            negotiator = DEFAULT_CONTENT_NEGOTIATION_CLASS env,
            parser_context =
              [(''request'', PyObj ''self''),
               (''encoding'', PyStr (case r_encoding request of
                                       None \<Rightarrow> DEFAULT_CHARSET env
                                     | Some e \<Rightarrow> if e = [] then DEFAULT_CHARSET env else e))],
            p_data = Empty,
            p_files = Empty,
            p_full_data = Empty,
            p_content_type = Empty,
            p_stream = Empty_stream,
            http_method = Unset,
            p_user = Unset,
            p_auth = Unset,
            p_authenticator = Unset,
            accepted_renderer = Unset,
            accepted_media_type = Unset,
            version = Unset,
            versioning_scheme = Unset \<rparr>;
          force_user = r_force_auth_user request;
          force_token = r_force_auth_token request
      in if force_user \<noteq> PyNone \<or> force_token \<noteq> PyNone
         then self\<lparr>authenticators := [ForcedAuthentication force_user force_token]\<rparr>
         else self)"

text \<open>
  The postcondition of \<open>__init__\<close>, which is also the first class invariant:
  \<open>"encoding" in self.parser_context and bool(self.parser_context["encoding"])\<close>.
\<close>

definition encoding_invariant :: "Request \<Rightarrow> bool" where
  "encoding_invariant self =
     (case map_of (parser_context self) ''encoding'' of
        None \<Rightarrow> False
      | Some v \<Rightarrow> py_truthy v)"

text \<open>
  The constructor as the decorators leave it: when \<open>__init__\<close> returns, its postcondition
  is checked and then the class invariants, of which a new wrapper can fail only this
  one (lemma \<open>class_invariants_init\<close>). \<open>Request_init\<close> is the state that \<open>__init__\<close> builds.
\<close>

definition Request_new ::
  "environment \<Rightarrow> HttpRequest \<Rightarrow> parser list option \<Rightarrow> authenticator list option \<Rightarrow> exn + Request" where
  "Request_new env request parsers_arg authenticators_arg =
     (let self = Request_init env request parsers_arg authenticators_arg
      in if encoding_invariant self then Inr self
         else Inl (ViolationError ''parser_context contains a non-empty encoding entry.''))"

text \<open>
  A call \<open>Request(k1=v1, ...)\<close> with keyword arguments: Python binds each keyword to a
  parameter of \<open>__init__\<close> and raises \<open>TypeError\<close> for a keyword that names none, or when
  the parameter without a default, \<open>request\<close>, is not given.
\<close>

datatype argument =
    Arg_request HttpRequest
  | Arg_parsers "parser list"
  | Arg_authenticators "authenticator list"
  | Arg_negotiator negotiator
  | Arg_parser_context "(string \<times> pyval) list"

definition Request_init_parameters :: "string list" where
  "Request_init_parameters = [''request'', ''parsers'', ''authenticators'']"

definition Request_call :: "environment \<Rightarrow> (string \<times> argument) list \<Rightarrow> exn + Request" where
  "Request_call env kwargs =
     (case filter (\<lambda>k. k \<notin> set Request_init_parameters) (map fst kwargs) of
        k # ks \<Rightarrow> Inl (TypeError (''unexpected keyword argument '' @ k))
      | [] \<Rightarrow>
          (case map_of kwargs ''request'' of
             Some (Arg_request request) \<Rightarrow>
               Request_new env request
                 (case map_of kwargs ''parsers'' of Some (Arg_parsers ps) \<Rightarrow> Some ps | _ \<Rightarrow> None)
                 (case map_of kwargs ''authenticators'' of
                    Some (Arg_authenticators al) \<Rightarrow> Some al | _ \<Rightarrow> None)
           | _ \<Rightarrow> Inl (TypeError ''missing required argument request'')))"

text \<open>\<open>clone_request(request, method)\<close>.\<close>

definition clone_request :: "environment \<Rightarrow> Request \<Rightarrow> string \<Rightarrow> exn + Request" where
  "clone_request env request new_method =
     (case Request_call env
             [(''request'', Arg_request (p_request request)),
              (''parsers'', Arg_parsers (parsers request)),
              (''authenticators'', Arg_authenticators (authenticators request)),
              (''negotiator'', Arg_negotiator (negotiator request)),
              (''parser_context'', Arg_parser_context (parser_context request))] of
        Inl e \<Rightarrow> Inl e
      | Inr ret \<Rightarrow>
          (let ret = ret\<lparr>p_data := p_data request,
                         p_files := p_files request,
                         p_full_data := p_full_data request,
                         p_content_type := p_content_type request,
                         p_stream := p_stream request,
                         http_method := Attr new_method\<rparr>;
               ret = (if p_user request \<noteq> Unset then ret\<lparr>p_user := p_user request\<rparr> else ret);
               ret = (if p_auth request \<noteq> Unset then ret\<lparr>p_auth := p_auth request\<rparr> else ret);
               ret = (if p_authenticator request \<noteq> Unset
                      then ret\<lparr>p_authenticator := p_authenticator request\<rparr> else ret);
               ret = (if accepted_renderer request \<noteq> Unset
                      then ret\<lparr>accepted_renderer := accepted_renderer request\<rparr> else ret);
               ret = (if accepted_media_type request \<noteq> Unset
                      then ret\<lparr>accepted_media_type := accepted_media_type request\<rparr> else ret);
               ret = (if version request \<noteq> Unset then ret\<lparr>version := version request\<rparr> else ret);
               ret = (if versioning_scheme request \<noteq> Unset
                      then ret\<lparr>versioning_scheme := versioning_scheme request\<rparr> else ret)
           in Inr ret))"

subsection \<open>Stream and content type\<close>

text \<open>\<open>meta.get(k1, meta.get(k2, default))\<close>.\<close>

definition meta_get2 :: "(string \<times> meta_value) list \<Rightarrow> string \<Rightarrow> string \<Rightarrow> meta_value \<Rightarrow> meta_value" where
  "meta_get2 meta k1 k2 dflt =
     (case map_of meta k1 of
        Some v \<Rightarrow> v
      | None \<Rightarrow> (case map_of meta k2 of Some v \<Rightarrow> v | None \<Rightarrow> dflt))"

definition content_type :: "Request \<Rightarrow> meta_value" where
  "content_type self = meta_get2 (META (p_request self)) ''CONTENT_TYPE'' ''HTTP_CONTENT_TYPE'' (MStr [])"

text \<open>
  The first statement of \<open>_load_stream\<close>: the declared length, with the default 0 when
  both headers are missing, converted by \<open>int\<close>; 0 when \<open>int\<close> raises.
\<close>

definition declared_content_length :: "Request \<Rightarrow> meta_value" where
  "declared_content_length self =
     meta_get2 (META (p_request self)) ''CONTENT_LENGTH'' ''HTTP_CONTENT_LENGTH'' (MInt 0)"

definition content_length :: "Request \<Rightarrow> int" where
  "content_length self =
     (case py_int (declared_content_length self) of
        Some n \<Rightarrow> n
      | None \<Rightarrow> 0)"

definition load_stream :: "Request \<Rightarrow> (exn + unit) \<times> Request" where
  "load_stream self =
     (if content_length self = 0 then (Inr (), self\<lparr>p_stream := None_stream\<rparr>)
      else if \<not> r_read_started (p_request self) then (Inr (), self\<lparr>p_stream := Request_stream\<rparr>)
      else (case r_body (p_request self) of
              None \<Rightarrow> (Inl RawPostDataException, self)
            | Some b \<Rightarrow> (Inr (), self\<lparr>p_stream := BytesIO b\<rparr>)))"

text \<open>The property \<open>stream\<close>.\<close>

definition stream :: "Request \<Rightarrow> (exn + stream) \<times> Request" where
  "stream self =
     (if p_stream self = Empty_stream
      then (case load_stream self of
              (Inl e, self') \<Rightarrow> (Inl e, self')
            | (Inr u, self') \<Rightarrow> (Inr (p_stream self'), self'))
      else (Inr (p_stream self), self))"

subsection \<open>Parsing\<close>

definition supports_form_parsing :: "Request \<Rightarrow> bool" where
  "supports_form_parsing self =
     list_ex (\<lambda>p. media_type p \<in> set [''application/x-www-form-urlencoded'', ''multipart/form-data''])
       (parsers self)"

text \<open>
  The part of \<open>_parse\<close> after the stream has been obtained. First the branch
  \<open>if stream is None or media_type is None\<close>, where
  \<open>media_type and is_form_media_type(media_type)\<close> calls the function only on a true value.
\<close>

definition empty_data_and_files :: "Request \<Rightarrow> meta_value \<Rightarrow> (exn + pydata \<times> pydata) \<times> Request" where
  "empty_data_and_files self mt =
     (case (if meta_truthy mt then is_form_media_type mt else Inr False) of
        Inl e \<Rightarrow> (Inl e, self)
      | Inr form \<Rightarrow>
          (Inr (if form then QueryDict [] (r_encoding (p_request self)) else Dict [],
                MultiValueDict []), self))"

text \<open>
  Then the negotiator and the parser. When the parser raises, the three caches are reset
  and the exception is raised again.
\<close>

definition parse_stream :: "Request \<Rightarrow> meta_value \<Rightarrow> stream \<Rightarrow> (exn + pydata \<times> pydata) \<times> Request" where
  "parse_stream self mt strm =
     (if strm = None_stream \<or> mt = MNone then empty_data_and_files self mt
      else (case negotiator self mt (parsers self) of
              None \<Rightarrow> (Inl (UnsupportedMediaType mt), self)
            | Some p \<Rightarrow>
                (case parser_parse p strm (p_request self) mt (parser_context self) of
                   Inl e \<Rightarrow>
                     (Inl e, self\<lparr>p_data := QueryDict [] (r_encoding (p_request self)),
                                  p_files := MultiValueDict [],
                                  p_full_data := QueryDict [] (r_encoding (p_request self))\<rparr>)
                 | Inr (DataAndFiles d f) \<Rightarrow> (Inr (d, f), self)
                 | Inr (RawData d) \<Rightarrow> (Inr (d, MultiValueDict []), self))))"

text \<open>
  \<open>_parse\<close>. A \<open>RawPostDataException\<close> from the stream is caught: it is raised again when the
  wrapped request has no \<open>_post\<close>; otherwise the host's \<open>POST\<close> and \<open>FILES\<close> are returned
  when a parser supports forms, and else parsing goes on with \<open>stream = None\<close>.
\<close>

definition parse :: "Request \<Rightarrow> (exn + pydata \<times> pydata) \<times> Request" where
  "parse self =
     (let mt = content_type self in
      case stream self of
        (Inl e, self') \<Rightarrow>
          (if e = RawPostDataException
           then (case r_post (p_request self') of
                   Unset \<Rightarrow> (Inl e, self')
                 | Attr post \<Rightarrow>
                     if supports_form_parsing self'
                     then (case host_FILES (p_request self') of
                             (files, request') \<Rightarrow> (Inr (post, files), self'\<lparr>p_request := request'\<rparr>))
                     else parse_stream self' mt None_stream)
           else (Inl e, self'))
      | (Inr strm, self') \<Rightarrow> parse_stream self' mt strm)"

text \<open>
  The context manager \<open>wrap_attributeerrors\<close>: an \<open>AttributeError\<close> leaves it as a
  \<open>WrappedAttributeError\<close> with the same message.
\<close>

fun wrap_attributeerrors :: "exn \<Rightarrow> exn" where
  "wrap_attributeerrors (AttributeError msg) = WrappedAttributeError msg"
| "wrap_attributeerrors e = e"

text \<open>
  The bodies of the properties \<open>POST\<close> and \<open>FILES\<close> below their first \<open>if\<close>, which
  \<open>_load_data_and_files\<close> reaches with \<open>_data\<close> and \<open>_files\<close> just assigned.
\<close>

definition POST_loaded :: "Request \<Rightarrow> exn + pydata" where
  "POST_loaded self =
     (case is_form_media_type (content_type self) of
        Inl e \<Rightarrow> Inl e
      | Inr form \<Rightarrow> Inr (if form then p_data self else QueryDict [] (r_encoding (p_request self))))"

definition FILES_loaded :: "Request \<Rightarrow> pydata" where
  "FILES_loaded self = p_files self"

text \<open>
  \<open>_load_data_and_files\<close>. A parser, and the container method \<open>update\<close>, are assumed not to
  return the placeholder class \<open>Empty\<close> itself, so that the reads of \<open>self.POST\<close> and \<open>self.FILES\<close> at the end do
  not start a second load, and the method's two postconditions (\<open>_data\<close> and \<open>_full_data\<close>
  are not \<open>Empty\<close>) hold when it returns on a wrapper that satisfies the second class
  invariant.
\<close>

definition load_data_and_files :: "environment \<Rightarrow> Request \<Rightarrow> (exn + unit) \<times> Request" where
  "load_data_and_files env self =
     (if p_data self \<noteq> Empty then (Inr (), self)
      else (case parse self of
              (Inl e, s1) \<Rightarrow> (Inl e, s1)
            | (Inr (d, f), s1) \<Rightarrow>
                (let s2 = s1\<lparr>p_data := d, p_files := f\<rparr> in
                 case (if data_truthy f
                       then (case data_copy env d of
                               Inl e \<Rightarrow> (Inl e, s2)
                             | Inr c \<Rightarrow>
                                 (case data_update env c f of
                                    Inl e \<Rightarrow> (Inl e, s2\<lparr>p_full_data := c\<rparr>)
                                  | Inr full \<Rightarrow> (Inr (), s2\<lparr>p_full_data := full\<rparr>)))
                       else (Inr (), s2\<lparr>p_full_data := d\<rparr>)) of
                   (Inl e, s3) \<Rightarrow> (Inl e, s3)
                 | (Inr u, s3) \<Rightarrow>
                     (case is_form_media_type (content_type s3) of
                        Inl e \<Rightarrow> (Inl e, s3)
                      | Inr form \<Rightarrow>
                          if form
                          then (case POST_loaded s3 of
                                  Inl e \<Rightarrow> (Inl e, s3)
                                | Inr post \<Rightarrow>
                                    (let s4 = s3\<lparr>p_request := (p_request s3)\<lparr>r_post := Attr post\<rparr>\<rparr>
                                     in (Inr (), s4\<lparr>p_request :=
                                                      (p_request s4)\<lparr>r_files := Attr (FILES_loaded s4)\<rparr>\<rparr>)))
                          else (Inr (), s3)))))"

text \<open>The properties \<open>data\<close>, \<open>POST\<close> and \<open>FILES\<close>.\<close>

definition data :: "environment \<Rightarrow> Request \<Rightarrow> (exn + pydata) \<times> Request" where
  "data env self =
     (if p_full_data self = Empty
      then (case load_data_and_files env self of
              (Inl e, self') \<Rightarrow> (Inl (wrap_attributeerrors e), self')
            | (Inr u, self') \<Rightarrow> (Inr (p_full_data self'), self'))
      else (Inr (p_full_data self), self))"

definition POST :: "environment \<Rightarrow> Request \<Rightarrow> (exn + pydata) \<times> Request" where
  "POST env self =
     (if p_data self = Empty
      then (case load_data_and_files env self of
              (Inl e, self') \<Rightarrow> (Inl (wrap_attributeerrors e), self')
            | (Inr u, self') \<Rightarrow> (POST_loaded self', self'))
      else (POST_loaded self, self))"

definition FILES :: "environment \<Rightarrow> Request \<Rightarrow> (exn + pydata) \<times> Request" where
  "FILES env self =
     (if p_files self = Empty
      then (case load_data_and_files env self of
              (Inl e, self') \<Rightarrow> (Inl (wrap_attributeerrors e), self')
            | (Inr u, self') \<Rightarrow> (Inr (FILES_loaded self'), self'))
      else (Inr (FILES_loaded self), self))"

subsection \<open>Authentication\<close>

text \<open>The setters of \<open>user\<close> and \<open>auth\<close> write through to the wrapped request.\<close>

definition set_user :: "pyval \<Rightarrow> Request \<Rightarrow> Request" where
  "set_user v self = self\<lparr>p_user := Attr v, p_request := (p_request self)\<lparr>r_user := Attr v\<rparr>\<rparr>"

definition set_auth :: "pyval \<Rightarrow> Request \<Rightarrow> Request" where
  "set_auth v self = self\<lparr>p_auth := Attr v, p_request := (p_request self)\<lparr>r_auth := Attr v\<rparr>\<rparr>"

text \<open>\<open>_not_authenticated\<close>.\<close>

definition not_authenticated :: "environment \<Rightarrow> Request \<Rightarrow> Request" where
  "not_authenticated env self =
     (let s1 = self\<lparr>p_authenticator := Attr None\<rparr>;
          s2 = set_user (case UNAUTHENTICATED_USER env of Some factory \<Rightarrow> factory () | None \<Rightarrow> PyNone) s1
      in set_auth (case UNAUTHENTICATED_TOKEN env of Some factory \<Rightarrow> factory () | None \<Rightarrow> PyNone) s2)"

text \<open>The loop of \<open>_authenticate\<close> over the authenticators still to be tried.\<close>

fun authenticate_loop :: "environment \<Rightarrow> authenticator list \<Rightarrow> Request \<Rightarrow> (exn + unit) \<times> Request" where
  "authenticate_loop env [] self = (Inr (), not_authenticated env self)"
| "authenticate_loop env (a # rest) self =
     (case authenticate a (p_request self) of
        Inl e \<Rightarrow> if is_APIException e then (Inl e, not_authenticated env self) else (Inl e, self)
      | Inr None \<Rightarrow> authenticate_loop env rest self
      | Inr (Some (u, t)) \<Rightarrow>
          (Inr (), set_auth t (set_user u (self\<lparr>p_authenticator := Attr (Some a)\<rparr>))))"

definition authenticate_request :: "environment \<Rightarrow> Request \<Rightarrow> (exn + unit) \<times> Request" where
  "authenticate_request env self = authenticate_loop env (authenticators self) self"

text \<open>
  The functions of the properties \<open>user\<close>, \<open>auth\<close> and \<open>successful_authenticator\<close>, as
  written. Reading an attribute that is still absent after \<open>_authenticate\<close> ends in
  \<open>__getattr__\<close>, which raises \<open>AttributeError\<close>.
\<close>

definition user_fget :: "environment \<Rightarrow> Request \<Rightarrow> (exn + pyval) \<times> Request" where
  "user_fget env self =
     (case p_user self of
        Attr v \<Rightarrow> (Inr v, self)
      | Unset \<Rightarrow>
          (case authenticate_request env self of
             (Inl e, self') \<Rightarrow> (Inl (wrap_attributeerrors e), self')
           | (Inr u, self') \<Rightarrow>
               (case p_user self' of
                  Attr v \<Rightarrow> (Inr v, self')
                | Unset \<Rightarrow> (Inl (AttributeError ''_user''), self'))))"



subsection \<open>The class invariants\<close>

text \<open>
  The conditions of the \<open>icontract.invariant\<close> decorators of the class. The first is
  \<open>encoding_invariant\<close>, given with the constructor above.
\<close>

text \<open>The second, declared twice: \<open>self._data is Empty or self._full_data is not Empty\<close>.\<close>

definition data_invariant :: "Request \<Rightarrow> bool" where
  "data_invariant self = (p_data self = Empty \<or> p_full_data self \<noteq> Empty)"

text \<open>
  The third: \<open>not hasattr(self, "_authenticator") or (self._authenticator is None or
  (hasattr(self, "_user") and bool(self._user)))\<close>.
\<close>

definition authenticator_invariant :: "Request \<Rightarrow> bool" where
  "authenticator_invariant self =
     (case p_authenticator self of
        Unset \<Rightarrow> True
      | Attr None \<Rightarrow> True
      | Attr (Some a) \<Rightarrow> (case p_user self of Unset \<Rightarrow> False | Attr u \<Rightarrow> py_truthy u))"

text \<open>
  The fourth: \<open>self._stream is Empty or self._stream is None or self._stream is
  self._request or hasattr(self._stream, "read")\<close>. Every value that \<open>_stream\<close> takes in
  this model satisfies it; a \<open>BytesIO\<close> has \<open>read\<close>.
\<close>

definition stream_invariant :: "Request \<Rightarrow> bool" where
  "stream_invariant self =
     (case p_stream self of
        Empty_stream \<Rightarrow> True
      | None_stream \<Rightarrow> True
      | Request_stream \<Rightarrow> True
      | BytesIO b \<Rightarrow> True)"

definition class_invariants :: "Request \<Rightarrow> bool" where
  "class_invariants self =
     (data_invariant self \<and> stream_invariant self \<and> authenticator_invariant self \<and>
      encoding_invariant self)"

text \<open>
  One check of the invariants, in the order in which the decorators registered them (the
  lowest decorator first); the first that fails raises \<open>ViolationError\<close>, here with the
  description the decorator was given (the quotes of the last one left out).
\<close>

definition check_invariants :: "Request \<Rightarrow> exn option" where
  "check_invariants self =
     (if \<not> data_invariant self
      then Some (ViolationError ''If _data has been loaded, then _full_data must also be set.'')
      else if \<not> stream_invariant self
      then Some (ViolationError
        ''_stream must be either not loaded, the original request, or a stream-like object.'')
      else if \<not> authenticator_invariant self
      then Some (ViolationError ''If an authenticator is set, then _user must be a truthy value.'')
      else if \<not> encoding_invariant self
      then Some (ViolationError ''parser_context must contain a non-empty encoding entry.'')
      else None)"

text \<open>
  The decorator around a public member \<open>f\<close>, for a call from outside the class: the
  invariants are checked, \<open>f\<close> runs, and when it returns they are checked again. An
  exception of \<open>f\<close> passes through. The state is the one reached when the exception is
  raised.
\<close>

definition with_invariants ::
  "(Request \<Rightarrow> (exn + 'a) \<times> Request) \<Rightarrow> Request \<Rightarrow> (exn + 'a) \<times> Request" where
  "with_invariants f self =
     (case check_invariants self of
        Some violation \<Rightarrow> (Inl violation, self)
      | None \<Rightarrow>
          (case f self of
             (Inl e, self') \<Rightarrow> (Inl e, self')
           | (Inr x, self') \<Rightarrow>
               (case check_invariants self' of
                  Some violation \<Rightarrow> (Inl violation, self')
                | None \<Rightarrow> (Inr x, self'))))"

text \<open>The properties \<open>user\<close>, \<open>auth\<close> and \<open>successful_authenticator\<close>, read from outside.\<close>

definition user :: "environment \<Rightarrow> Request \<Rightarrow> (exn + pyval) \<times> Request" where
  "user env self = with_invariants (user_fget env) self"



subsection \<open>Concrete collaborators and requests\<close>

text \<open>
  Instances on which the theorems below are evaluated. The negotiator picks the first
  parser whose media type is the base media type of the request's content type. The
  anonymous-user factory is configured, the token factory is not.
\<close>

definition first_match_negotiator :: negotiator where
  "first_match_negotiator mt ps =
     (case mt of
        MStr s \<Rightarrow> find (\<lambda>p. media_type p = base_media_type s) ps
      | _ \<Rightarrow> None)"

definition example_update :: "pydata \<Rightarrow> pydata \<Rightarrow> exn + pydata" where
  "example_update d f =
     (case (d, f) of
        (QueryDict kvs enc, MultiValueDict fs) \<Rightarrow> Inr (QueryDict (kvs @ fs) enc)
      | _ \<Rightarrow> Inl (AttributeError ''update''))"

definition example_env :: environment where
  "example_env = \<lparr>
     DEFAULT_CHARSET = ''utf-8'',
     DEFAULT_CONTENT_NEGOTIATION_CLASS = first_match_negotiator,
     UNAUTHENTICATED_USER = Some (\<lambda>u. PyObj ''AnonymousUser''),
     UNAUTHENTICATED_TOKEN = None,
     data_copy = Inr,
     data_update = example_update \<rparr>"




definition silent_authenticator :: authenticator where
  "silent_authenticator = Authenticator ''silent'' (\<lambda>request. Inr None)"

definition failing_authenticator :: authenticator where
  "failing_authenticator = Authenticator ''failing'' (\<lambda>request. Inl (APIException ''AuthenticationFailed''))"

definition token_authenticator :: authenticator where
  "token_authenticator = Authenticator ''token'' (\<lambda>request. Inr (Some (PyObj ''alice'', PyObj ''key'')))"

text \<open>A request with no headers, an unread stream and no forced authentication.\<close>

definition bare_request :: HttpRequest where
  "bare_request = \<lparr>
     META = [],
     r_read_started = False,
     r_body = None,
     r_encoding = None,
     r_method = ''GET'',
     r_post = Unset,
     r_files = Unset,
     r_user = Unset,
     r_auth = Unset,
     r_force_auth_user = PyNone,
     r_force_auth_token = PyNone \<rparr>"

text \<open>A request on which only a token was forced.\<close>

definition forced_token_request :: HttpRequest where
  "forced_token_request = bare_request\<lparr>r_force_auth_token := PyObj ''key''\<rparr>"










text \<open>Wrappers around these requests, as the constructor builds them.\<close>

definition failing_authentication_wrapper :: Request where
  "failing_authentication_wrapper =
     Request_init example_env bare_request None
       (Some [silent_authenticator, failing_authenticator, token_authenticator])"

definition forced_token_wrapper :: Request where
  "forced_token_wrapper =
     Request_init example_env forced_token_request None (Some [failing_authenticator])"














section \<open>Facts about the stream and the authentication loop\<close>

lemma stream_frame: "stream self = (r, self') \<Longrightarrow> self' = self\<lparr>p_stream := p_stream self'\<rparr>"
  by (auto simp add: stream_def load_stream_def split: if_splits option.splits)




lemma content_type_p_stream [simp]: "content_type (self\<lparr>p_stream := v\<rparr>) = content_type self"
  by (simp add: content_type_def)

lemma base_media_type_Nil [simp]: "base_media_type [] = []"
  by (simp add: base_media_type_def py_strip_def strip_with_def)






lemma host_FILES_present: "r_files r \<noteq> Unset \<Longrightarrow> host_FILES r = (case r_files r of Attr f \<Rightarrow> (f, r))"
  by (cases "r_files r") (simp_all add: host_FILES_def)


lemma content_type_META: "META (p_request s) = META (p_request s') \<Longrightarrow> content_type s = content_type s'"
  by (simp add: content_type_def)




lemma stream_invariant_holds [simp]: "stream_invariant self"
  by (simp add: stream_invariant_def split: stream.splits)

lemma check_invariants_None: "check_invariants self = None \<longleftrightarrow> class_invariants self"
  by (simp add: check_invariants_def class_invariants_def)

lemma check_invariants_holds: "class_invariants self \<Longrightarrow> check_invariants self = None"
  by (simp add: check_invariants_None)

lemma with_invariants_raise:
  "class_invariants self \<Longrightarrow> f self = (Inl e, self') \<Longrightarrow> with_invariants f self = (Inl e, self')"
  by (simp add: with_invariants_def check_invariants_holds)

lemma with_invariants_return:
  "class_invariants self \<Longrightarrow> f self = (Inr x, self') \<Longrightarrow> class_invariants self' \<Longrightarrow>
   with_invariants f self = (Inr x, self')"
  by (simp add: with_invariants_def check_invariants_holds)

text \<open>
  The constructor's own check: the invariants hold of a new wrapper exactly when the
  encoding it stored is not empty, as its postcondition demands.
\<close>

lemma class_invariants_init:
  "class_invariants (Request_init env request ps al) \<longleftrightarrow>
   (case r_encoding request of
      None \<Rightarrow> DEFAULT_CHARSET env
    | Some e \<Rightarrow> if e = [] then DEFAULT_CHARSET env else e) \<noteq> []"
  by (simp add: class_invariants_def data_invariant_def authenticator_invariant_def
      encoding_invariant_def Request_init_def Let_def)

lemma Request_new_invariants:
  "Request_new env request ps al = Inr self \<Longrightarrow>
   self = Request_init env request ps al \<and> class_invariants self"
  by (auto simp add: Request_new_def Let_def class_invariants_def data_invariant_def
      authenticator_invariant_def Request_init_def split: if_splits)

text \<open>Around \<open>stream\<close> the check changes nothing when the invariants hold on entry.\<close>

lemma class_invariants_p_stream [simp]:
  "class_invariants (self\<lparr>p_stream := v\<rparr>) = class_invariants self"
  by (simp add: class_invariants_def data_invariant_def authenticator_invariant_def
      encoding_invariant_def split: attribute.splits option.splits)

lemma stream_with_invariants:
  assumes "class_invariants self"
  shows "with_invariants stream self = stream self"
proof -
  obtain r s1 where st: "stream self = (r, s1)" by (cases "stream self")
  have s1: "s1 = self\<lparr>p_stream := p_stream s1\<rparr>" using st by (rule stream_frame)
  have inv: "class_invariants s1" using assms by (subst s1) simp
  show ?thesis
    using assms st inv by (cases r) (simp_all add: with_invariants_raise with_invariants_return)
qed

text \<open>
  So it does around \<open>data\<close>, \<open>POST\<close> and \<open>FILES\<close>, as long as \<open>update\<close> does not return the
  placeholder class.
\<close>

lemma parse_stream_keeps:
  assumes "parse_stream self mt strm = (Inr r, s')"
  shows "s' = self"
  using assms
  by (auto simp add: parse_stream_def empty_data_and_files_def
      split: if_splits sum.splits option.splits parsed.splits)

lemma parse_keeps:
  assumes "parse self = (Inr r, s1)"
  shows "p_authenticator s1 = p_authenticator self" and "p_user s1 = p_user self"
    and "parser_context s1 = parser_context self" and "p_data s1 = p_data self"
    and "p_full_data s1 = p_full_data self"
proof -
  obtain r0 s0 where st: "stream self = (r0, s0)" by (cases "stream self")
  have s0: "s0 = self\<lparr>p_stream := p_stream s0\<rparr>" using st by (rule stream_frame)
  have "\<exists>v q. s1 = self\<lparr>p_stream := v, p_request := q\<rparr>"
  proof (cases r0)
    case (Inl e)
    then show ?thesis
      using assms st
      apply (auto simp add: parse_def Let_def split: if_splits attribute.splits prod.splits
          dest!: parse_stream_keeps)
       apply (subst s0, rule exI [of _ "p_stream s0"], rule exI, simp)
      apply (subst s0, rule exI [of _ "p_stream s0"], rule exI [of _ "p_request self"], simp)
      done
  next
    case (Inr strm)
    then show ?thesis
      using assms st
      apply (auto simp add: parse_def Let_def dest!: parse_stream_keeps)
      apply (subst s0, rule exI [of _ "p_stream s0"], rule exI [of _ "p_request self"], simp)
      done
  qed
  then obtain v q where s1: "s1 = self\<lparr>p_stream := v, p_request := q\<rparr>" by blast
  show "p_authenticator s1 = p_authenticator self" by (simp add: s1)
  show "p_user s1 = p_user self" by (simp add: s1)
  show "parser_context s1 = parser_context self" by (simp add: s1)
  show "p_data s1 = p_data self" by (simp add: s1)
  show "p_full_data s1 = p_full_data self" by (simp add: s1)
qed

lemma class_invariants_fields:
  assumes "p_authenticator s' = p_authenticator self" and "p_user s' = p_user self"
      and "parser_context s' = parser_context self"
      and "p_data s' = Empty \<or> p_full_data s' \<noteq> Empty"
      and "class_invariants self"
  shows "class_invariants s'"
  using assms
  by (simp add: class_invariants_def data_invariant_def authenticator_invariant_def
      encoding_invariant_def split: attribute.splits option.splits)

lemma load_keeps_invariants:
  assumes inv: "class_invariants self"
      and load: "load_data_and_files env self = (Inr u, s')"
      and update: "\<And>c f full. data_update env c f = Inr full \<Longrightarrow> full \<noteq> Empty"
  shows "class_invariants s'"
proof (cases "p_data self = Empty")
  case False
  then show ?thesis using inv load by (simp add: load_data_and_files_def)
next
  case True
  obtain d f s1 where p: "parse self = (Inr (d, f), s1)"
    using True load by (auto simp add: load_data_and_files_def split: prod.splits sum.splits)
  note keep = parse_keeps [OF p]
  have "p_authenticator s' = p_authenticator self \<and> p_user s' = p_user self \<and>
        parser_context s' = parser_context self \<and>
        (p_data s' = Empty \<or> p_full_data s' \<noteq> Empty)"
    using True load p keep
    by (auto simp add: load_data_and_files_def Let_def POST_loaded_def FILES_loaded_def
        split: if_splits sum.splits dest: update)
  then show ?thesis using inv by (blast intro: class_invariants_fields)
qed

lemma data_with_invariants:
  assumes inv: "class_invariants self"
      and update: "\<And>c f full. data_update env c f = Inr full \<Longrightarrow> full \<noteq> Empty"
  shows "with_invariants (data env) self = data env self"
proof -
  obtain r s' where d: "data env self = (r, s')" by (cases "data env self")
  show ?thesis
  proof (cases r)
    case (Inl e)
    then show ?thesis using inv d by (simp add: with_invariants_raise)
  next
    case (Inr x)
    have "class_invariants s'"
    proof (cases "p_full_data self = Empty")
      case False
      then show ?thesis using inv d by (simp add: data_def)
    next
      case True
      then obtain u where l: "load_data_and_files env self = (Inr u, s')"
        using d Inr by (auto simp add: data_def split: prod.splits sum.splits)
      show ?thesis by (rule load_keeps_invariants [OF inv l update])
    qed
    then show ?thesis using inv d Inr by (simp add: with_invariants_return)
  qed
qed

lemma POST_with_invariants:
  assumes inv: "class_invariants self"
      and update: "\<And>c f full. data_update env c f = Inr full \<Longrightarrow> full \<noteq> Empty"
  shows "with_invariants (POST env) self = POST env self"
proof -
  obtain r s' where d: "POST env self = (r, s')" by (cases "POST env self")
  show ?thesis
  proof (cases r)
    case (Inl e)
    then show ?thesis using inv d by (simp add: with_invariants_raise)
  next
    case (Inr x)
    have "class_invariants s'"
    proof (cases "p_data self = Empty")
      case False
      then show ?thesis using inv d by (simp add: POST_def)
    next
      case True
      then obtain u where l: "load_data_and_files env self = (Inr u, s')"
        using d Inr by (auto simp add: POST_def split: prod.splits sum.splits)
      show ?thesis by (rule load_keeps_invariants [OF inv l update])
    qed
    then show ?thesis using inv d Inr by (simp add: with_invariants_return)
  qed
qed

lemma FILES_with_invariants:
  assumes inv: "class_invariants self"
      and update: "\<And>c f full. data_update env c f = Inr full \<Longrightarrow> full \<noteq> Empty"
  shows "with_invariants (FILES env) self = FILES env self"
proof -
  obtain r s' where d: "FILES env self = (r, s')" by (cases "FILES env self")
  show ?thesis
  proof (cases r)
    case (Inl e)
    then show ?thesis using inv d by (simp add: with_invariants_raise)
  next
    case (Inr x)
    have "class_invariants s'"
    proof (cases "p_files self = Empty")
      case False
      then show ?thesis using inv d by (simp add: FILES_def)
    next
      case True
      then obtain u where l: "load_data_and_files env self = (Inr u, s')"
        using d Inr by (auto simp add: FILES_def split: prod.splits sum.splits)
      show ?thesis by (rule load_keeps_invariants [OF inv l update])
    qed
    then show ?thesis using inv d Inr by (simp add: with_invariants_return)
  qed
qed

lemma authenticate_loop_skips:
  "list_all (\<lambda>b. authenticate b (p_request self) = Inr None) pre \<Longrightarrow>
   authenticate_loop env (pre @ rest) self = authenticate_loop env rest self"
  by (induction pre) simp_all

lemma not_authenticated_fields:
  "p_authenticator (not_authenticated env self) = Attr None"
  "p_user (not_authenticated env self) =
     Attr (case UNAUTHENTICATED_USER env of Some factory \<Rightarrow> factory () | None \<Rightarrow> PyNone)"
  "p_auth (not_authenticated env self) =
     Attr (case UNAUTHENTICATED_TOKEN env of Some factory \<Rightarrow> factory () | None \<Rightarrow> PyNone)"
  by (simp_all add: not_authenticated_def set_user_def set_auth_def Let_def)

lemma wrap_APIException: "is_APIException e \<Longrightarrow> wrap_attributeerrors e = e"
  by (cases e) simp_all




text \<open>The example wrappers, evaluated.\<close>

text \<open>\<open>int\<close> on some strings, among them blanks that only one of the two sets holds.\<close>

lemma int_examples:
  "py_int_str [CHR 0xA0, CHR ''5''] = Some 5"
  "py_int_str [CHR 0x85, CHR ''5'', CHR '' ''] = Some 5"
  "py_int_str [CHR 0x1F, CHR ''5''] = None"
  "py_int_str ''-1_0'' = Some (- 10)"
  "py_int_str ''1__0'' = None"
  "py_int_str [] = None"
  by (simp_all add: py_int_str_def strip_with_def int_isspace_def is_digit_def
      digits_value_def digit_val_def)












section \<open>Cloning\<close>

text \<open>
  C1. The claim: cloning a wrapper with a target method yields a new wrapper around the
  same request, with the method replaced and the resolved caches copied. The code does
  not get that far. \<open>clone_request\<close> calls the constructor with the keywords \<open>negotiator\<close>
  and \<open>parser_context\<close>, which \<open>Request.__init__\<close> no longer accepts, so every call of
  \<open>clone_request\<close> raises \<open>TypeError\<close> and no clone is returned.
\<close>

theorem clone_request_raises_TypeError:
  "clone_request env request new_method =
     Inl (TypeError ''unexpected keyword argument negotiator'')"
  by (simp add: clone_request_def Request_call_def Request_init_parameters_def)

theorem clone_request_raises_TypeError_witness:
  "clone_request example_env
     (snd (user example_env (Request_init example_env bare_request None (Some [token_authenticator]))))
     ''POST'' =
     Inl (TypeError ''unexpected keyword argument negotiator'')"
  by (rule clone_request_raises_TypeError)

section \<open>Authentication\<close>

text \<open>
  C4. The authenticators are tried in order. When the authenticators before \<open>a\<close> all
  return \<open>None\<close> and \<open>a\<close> raises an API exception \<open>e\<close>, \<open>_authenticate\<close> raises \<open>e\<close> and leaves
  the request marked unauthenticated: \<open>_authenticator\<close> is \<open>None\<close>, \<open>_user\<close> is the result of
  the anonymous-user factory if one is configured and \<open>None\<close> otherwise, \<open>_auth\<close> likewise
  for the token factory. The authenticators after \<open>a\<close> are not consulted. The function of
  the property \<open>user\<close> passes the same exception and state on, and so does the property
  read from outside on a wrapper that satisfies the class invariants.
\<close>

theorem api_exception_marks_unauthenticated:
  assumes "authenticators self = pre @ a # post"
      and "list_all (\<lambda>b. authenticate b (p_request self) = Inr None) pre"
      and "authenticate a (p_request self) = Inl e"
      and "is_APIException e"
  shows "authenticate_request env self = (Inl e, not_authenticated env self) \<and>
         p_authenticator (not_authenticated env self) = Attr None \<and>
         p_user (not_authenticated env self) =
           Attr (case UNAUTHENTICATED_USER env of Some factory \<Rightarrow> factory () | None \<Rightarrow> PyNone) \<and>
         p_auth (not_authenticated env self) =
           Attr (case UNAUTHENTICATED_TOKEN env of Some factory \<Rightarrow> factory () | None \<Rightarrow> PyNone) \<and>
         (p_user self = Unset \<longrightarrow> user_fget env self = (Inl e, not_authenticated env self)) \<and>
         (p_user self = Unset \<and> class_invariants self \<longrightarrow>
            user env self = (Inl e, not_authenticated env self))"
proof -
  have "authenticate_loop env (pre @ a # post) self = authenticate_loop env (a # post) self"
    using assms(2) by (rule authenticate_loop_skips)
  also have "\<dots> = (Inl e, not_authenticated env self)"
    using assms(3,4) by simp
  finally have run: "authenticate_request env self = (Inl e, not_authenticated env self)"
    using assms(1) by (simp add: authenticate_request_def)
  have fget: "p_user self = Unset \<Longrightarrow> user_fget env self = (Inl e, not_authenticated env self)"
    using run assms(4) by (simp add: user_fget_def wrap_APIException)
  show ?thesis
    using run fget by (simp add: not_authenticated_fields user_def with_invariants_raise)
qed

theorem api_exception_marks_unauthenticated_witness:
  "authenticate_request example_env failing_authentication_wrapper =
     (Inl (APIException ''AuthenticationFailed''),
      not_authenticated example_env failing_authentication_wrapper) \<and>
   p_authenticator (not_authenticated example_env failing_authentication_wrapper) = Attr None \<and>
   p_user (not_authenticated example_env failing_authentication_wrapper) =
     Attr (PyObj ''AnonymousUser'') \<and>
   p_auth (not_authenticated example_env failing_authentication_wrapper) = Attr PyNone \<and>
   user_fget example_env failing_authentication_wrapper =
     (Inl (APIException ''AuthenticationFailed''),
      not_authenticated example_env failing_authentication_wrapper) \<and>
   class_invariants failing_authentication_wrapper \<and>
   user example_env failing_authentication_wrapper =
     (Inl (APIException ''AuthenticationFailed''),
      not_authenticated example_env failing_authentication_wrapper)"
proof -
  have inv: "class_invariants failing_authentication_wrapper"
    by (simp add: failing_authentication_wrapper_def class_invariants_init bare_request_def
        example_env_def)
  show ?thesis
    using api_exception_marks_unauthenticated
            [of failing_authentication_wrapper "[silent_authenticator]" failing_authenticator
                "[token_authenticator]" "APIException ''AuthenticationFailed''" example_env]
          inv
    by (simp add: failing_authentication_wrapper_def Request_init_def bare_request_def
        silent_authenticator_def failing_authenticator_def example_env_def)
qed

text \<open>
  C5. The claim is the class invariant the code declares: once \<open>_authenticator\<close> is
  resolved to an authenticator, \<open>_user\<close> is set and is a true value. The code breaks it.
  On a request on which only a token was forced, the constructor installs
  \<open>ForcedAuthentication(None, token)\<close>; reading \<open>user\<close> runs it, which records it as the
  successful authenticator and sets \<open>_user\<close> to \<open>None\<close>: the function of the property
  returns \<open>None\<close>. The invariant holds before the read and fails after it, which the
  decorator reports by raising \<open>ViolationError\<close> from the read.
\<close>

theorem forced_token_breaks_authenticator_invariant:
  "authenticator_invariant forced_token_wrapper \<and>
   fst (user_fget example_env forced_token_wrapper) = Inr PyNone \<and>
   p_authenticator (snd (user example_env forced_token_wrapper)) =
     Attr (Some (ForcedAuthentication PyNone (PyObj ''key''))) \<and>
   p_user (snd (user example_env forced_token_wrapper)) = Attr PyNone \<and>
   \<not> authenticator_invariant (snd (user example_env forced_token_wrapper)) \<and>
   fst (user example_env forced_token_wrapper) =
     Inl (ViolationError ''If an authenticator is set, then _user must be a truthy value.'')"
  by (simp add: forced_token_wrapper_def Request_init_def forced_token_request_def
      bare_request_def example_env_def user_def user_fget_def with_invariants_def
      check_invariants_def data_invariant_def stream_invariant_def encoding_invariant_def
      authenticate_request_def set_user_def set_auth_def authenticator_invariant_def)




section \<open>The stream and the parsed data\<close>
















end
